theory Spec2Isabelle
  imports Main
begin

section \<open>Python values and strings\<close>

text \<open>
  A Python \<open>str\<close> is modelled as a \<^typ>\<open>string\<close> whose characters are the code points
  below 256. The character classes below are those of CPython for that range:
  \<open>str.isspace\<close> (used by \<open>str.strip()\<close> and by \<open>\s\<close> in \<open>re\<close>), the decimal digits
  (\<open>\d\<close>), the word characters (\<open>\w\<close>) and \<open>str.lower\<close>.

  The values stored in a dictionary are \<open>None\<close>, integers and strings; a dictionary keeps
  its insertion order and is an association list, read with \<open>dict.get\<close>.
\<close>

datatype pyval = PNone | PInt int | PStr string

type_synonym pydict = "(string \<times> pyval) list"

definition dict_get :: "pydict \<Rightarrow> string \<Rightarrow> pyval \<Rightarrow> pyval" where
  "dict_get d k dflt = (case map_of d k of None \<Rightarrow> dflt | Some v \<Rightarrow> v)"

definition isspace :: "char \<Rightarrow> bool" where
  "isspace c = (of_char c \<in> {9, 10, 11, 12, 13, 28, 29, 30, 31, 32, 133, 160 :: nat})"

definition isdecimal :: "char \<Rightarrow> bool" where
  "isdecimal c = (48 \<le> (of_char c :: nat) \<and> (of_char c :: nat) \<le> 57)"

definition isupper :: "char \<Rightarrow> bool" where
  "isupper c = (let n = (of_char c :: nat) in
     (65 \<le> n \<and> n \<le> 90) \<or> (192 \<le> n \<and> n \<le> 214) \<or> (216 \<le> n \<and> n \<le> 222))"

definition isword :: "char \<Rightarrow> bool" where
  "isword c = (let n = (of_char c :: nat) in
     isdecimal c \<or> (65 \<le> n \<and> n \<le> 90) \<or> n = 95 \<or> (97 \<le> n \<and> n \<le> 122)
     \<or> n \<in> {170, 178, 179, 181, 185, 186, 188, 189, 190}
     \<or> (192 \<le> n \<and> n \<le> 214) \<or> (216 \<le> n \<and> n \<le> 246) \<or> 248 \<le> n)"

definition lower_char :: "char \<Rightarrow> char" where
  "lower_char c = (if isupper c then char_of (of_char c + (32 :: nat)) else c)"

definition lower :: "string \<Rightarrow> string" where
  "lower s = map lower_char s"

definition strip_chars :: "(char \<Rightarrow> bool) \<Rightarrow> string \<Rightarrow> string" where
  "strip_chars p s = rev (dropWhile p (rev (dropWhile p s)))"

definition strip :: "string \<Rightarrow> string" where
  "strip s = strip_chars isspace s"

definition digit_char :: "nat \<Rightarrow> char" where
  "digit_char d = ''0123456789'' ! d"

function nat_str :: "nat \<Rightarrow> string" where
  "nat_str n = (if n < 10 then [digit_char n] else nat_str (n div 10) @ [digit_char (n mod 10)])"
  by pat_completeness auto
termination
  by (relation "measure (\<lambda>n. n)") auto

definition int_str :: "int \<Rightarrow> string" where
  "int_str i = (if i < 0 then CHR ''-'' # nat_str (nat (- i)) else nat_str (nat i))"

fun py_str :: "pyval \<Rightarrow> string" where
  "py_str PNone = ''None''"
| "py_str (PInt i) = int_str i"
| "py_str (PStr s) = s"


section \<open>Configuration constants\<close>

definition MODEL_NAME :: string where
  "MODEL_NAME = ''gemini-2.5-flash''"

definition MAX_QUESTIONS :: int where
  "MAX_QUESTIONS = 10"

definition DIFFICULTY_COLORS :: "(string \<times> string) list" where
  "DIFFICULTY_COLORS = [(''hard'', ''red''), (''medium'', ''orange''), (''easy'', ''green'')]"


section \<open>Difficulty colours and the question card\<close>

definition get_difficulty_color :: "string \<Rightarrow> string" where
  "get_difficulty_color difficulty =
     (case map_of DIFFICULTY_COLORS (lower difficulty) of None \<Rightarrow> ''gray'' | Some c \<Rightarrow> c)"

text \<open>
  What \<open>display_question\<close> hands to the page: the heading \<open>Q{q_id}\<close>, the badge
  \<open>:{color}[**{diff}**]\<close>, the points metric, the title, the question text and the
  scoring criteria.
\<close>

record card =
  card_id :: pyval
  card_color :: string
  card_diff :: string
  card_points :: pyval
  card_title :: pyval
  card_text :: pyval
  card_criteria :: pyval

definition display_question :: "pydict \<Rightarrow> int \<Rightarrow> card \<times> pyval" where
  "display_question q index =
     (let pts = dict_get q ''max_points'' (PInt 10);
          title = dict_get q ''title'' (PStr ''Topic'');
          text = dict_get q ''question_text'' (PStr ''...'');
          diff = strip (py_str (dict_get q ''difficulty'' (PStr ''Medium'')));
          criteria = dict_get q ''scoring_criteria'' (PStr ''No criteria provided'');
          q_id = dict_get q ''id'' (PInt (index + 1));
          diff_lower = lower diff;
          color = (if diff_lower = ''easy'' then ''green''
                   else if diff_lower = ''hard'' then ''red''
                   else ''orange'')
      in (\<lparr>card_id = q_id, card_color = color, card_diff = diff, card_points = pts,
           card_title = title, card_text = text, card_criteria = criteria\<rparr>, pts))"



section \<open>The question-record parser\<close>

text \<open>
  Exceptions are values. \<open>ValueError\<close> and \<open>IndexError\<close> are what the row conversion
  catches; \<open>csv.Error\<close> is what the reader of the \<open>csv\<close> module raises.
\<close>

datatype csv_message = Field_larger_than_field_limit | New_line_character_seen_in_unquoted_field

datatype py_exn = ValueError | IndexError | TypeError | CsvError csv_message

definition nl :: char where
  "nl = CHR 0x0A"

definition cr :: char where
  "cr = CHR 0x0D"

definition dquote :: char where
  "dquote = CHR 0x22"

subsection \<open>Cleaning the text and selecting data lines\<close>

text \<open>
  \<open>re.sub(r'```\w*\n?', '', raw_text)\<close>: at every position where three backticks start,
  the backticks, the longest run of word characters after them and one newline, if it
  follows, are removed; scanning resumes after the match.
\<close>

definition eat_newline :: "string \<Rightarrow> string" where
  "eat_newline s = (case s of [] \<Rightarrow> [] | c # cs \<Rightarrow> if c = nl then cs else s)"

function remove_fences :: "string \<Rightarrow> string" where
  "remove_fences s =
     (if take 3 s = ''```'' then remove_fences (eat_newline (dropWhile isword (drop 3 s)))
      else (case s of [] \<Rightarrow> [] | c # cs \<Rightarrow> c # remove_fences cs))"
  by pat_completeness auto
termination
proof (relation "measure (length :: string \<Rightarrow> nat)")
  fix s :: string
  assume a: "take 3 s = ''```''"
  have "length (take 3 s) = 3"
    by (simp only: a) simp
  then have "3 \<le> length s"
    by simp
  moreover have "length (eat_newline t) \<le> length t" for t
    by (cases t) (simp_all add: eat_newline_def)
  from this [of "dropWhile isword (drop 3 s)"] length_dropWhile_le [of isword "drop 3 s"]
  have "length (eat_newline (dropWhile isword (drop 3 s))) \<le> length (drop 3 s)"
    by (rule order_trans)
  ultimately show "(eat_newline (dropWhile isword (drop 3 s)), s) \<in> measure length"
    by simp
qed simp_all

text \<open>\<open>str.split('\n')\<close> and \<open>'\n'.join\<close>.\<close>

fun split_nl :: "string \<Rightarrow> string list" where
  "split_nl [] = [[]]"
| "split_nl (c # cs) =
     (if c = nl then [] # split_nl cs
      else (case split_nl cs of [] \<Rightarrow> [[c]] | l # ls \<Rightarrow> (c # l) # ls))"

fun join_nl :: "string list \<Rightarrow> string" where
  "join_nl [] = []"
| "join_nl [l] = l"
| "join_nl (l # m # ls) = l @ nl # join_nl (m # ls)"

text \<open>
  \<open>re.match(r'^\d+\s*,', line)\<close>: both repetitions are greedy, and giving back a digit or
  a blank never exposes a comma, so the match succeeds exactly when the longest run of
  digits is not empty and the first character after the blanks that follow it is a comma.
\<close>

definition is_data_line :: "string \<Rightarrow> bool" where
  "is_data_line line =
     (takeWhile isdecimal line \<noteq> [] \<and>
      (case dropWhile isspace (dropWhile isdecimal line) of
         [] \<Rightarrow> False
       | c # _ \<Rightarrow> c = CHR '',''))"

definition data_lines_of :: "string \<Rightarrow> string list" where
  "data_lines_of clean_text = filter is_data_line (map strip (split_nl clean_text))"

subsection \<open>The reader of the csv module\<close>

text \<open>
  \<open>csv.reader(StringIO(text), skipinitialspace=True)\<close> with the default dialect: delimiter
  comma, quote character \<open>"\<close>, doubled quotes, no escape character, not strict. The
  states and transitions are those of CPython's reader; the states that only an escape
  character reaches are left out. \<open>None\<close> is the end-of-line marker that the reader feeds
  itself after the last character of a line.
\<close>

datatype parser_state =
  START_RECORD | START_FIELD | IN_FIELD | IN_QUOTED_FIELD | QUOTE_IN_QUOTED_FIELD | EAT_CRNL

record reader =
  rd_state :: parser_state
  rd_fields :: "string list"
  rd_field :: string
  rd_field_len :: nat

definition field_limit :: nat where
  "field_limit = 131072"

definition parse_reset :: reader where
  "parse_reset = \<lparr>rd_state = START_RECORD, rd_fields = [], rd_field = [], rd_field_len = 0\<rparr>"

definition parse_save_field :: "reader \<Rightarrow> reader" where
  "parse_save_field r =
     r\<lparr>rd_fields := rd_fields r @ [rd_field r], rd_field := [], rd_field_len := 0\<rparr>"

definition parse_add_char :: "reader \<Rightarrow> char \<Rightarrow> py_exn + reader" where
  "parse_add_char r c =
     (if field_limit \<le> rd_field_len r then Inl (CsvError Field_larger_than_field_limit)
      else Inr (r\<lparr>rd_field := rd_field r @ [c], rd_field_len := rd_field_len r + 1\<rparr>))"

definition then_state :: "py_exn + reader \<Rightarrow> parser_state \<Rightarrow> py_exn + reader" where
  "then_state x s = (case x of Inl e \<Rightarrow> Inl e | Inr r \<Rightarrow> Inr (r\<lparr>rd_state := s\<rparr>))"

definition start_field :: "reader \<Rightarrow> char option \<Rightarrow> py_exn + reader" where
  "start_field r c =
     (case c of
        None \<Rightarrow> Inr ((parse_save_field r)\<lparr>rd_state := START_RECORD\<rparr>)
      | Some ch \<Rightarrow>
          if ch = nl \<or> ch = cr then Inr ((parse_save_field r)\<lparr>rd_state := EAT_CRNL\<rparr>)
          else if ch = dquote then Inr (r\<lparr>rd_state := IN_QUOTED_FIELD\<rparr>)
          else if ch = CHR '' '' then Inr r
          else if ch = CHR '','' then Inr (parse_save_field r)
          else then_state (parse_add_char r ch) IN_FIELD)"

definition parse_process_char :: "reader \<Rightarrow> char option \<Rightarrow> py_exn + reader" where
  "parse_process_char r c =
     (case rd_state r of
        START_RECORD \<Rightarrow>
          (case c of
             None \<Rightarrow> Inr r
           | Some ch \<Rightarrow>
               if ch = nl \<or> ch = cr then Inr (r\<lparr>rd_state := EAT_CRNL\<rparr>)
               else start_field (r\<lparr>rd_state := START_FIELD\<rparr>) c)
      | START_FIELD \<Rightarrow> start_field r c
      | IN_FIELD \<Rightarrow>
          (case c of
             None \<Rightarrow> Inr ((parse_save_field r)\<lparr>rd_state := START_RECORD\<rparr>)
           | Some ch \<Rightarrow>
               if ch = nl \<or> ch = cr then Inr ((parse_save_field r)\<lparr>rd_state := EAT_CRNL\<rparr>)
               else if ch = CHR '','' then Inr ((parse_save_field r)\<lparr>rd_state := START_FIELD\<rparr>)
               else parse_add_char r ch)
      | IN_QUOTED_FIELD \<Rightarrow>
          (case c of
             None \<Rightarrow> Inr r
           | Some ch \<Rightarrow>
               if ch = dquote then Inr (r\<lparr>rd_state := QUOTE_IN_QUOTED_FIELD\<rparr>)
               else parse_add_char r ch)
      | QUOTE_IN_QUOTED_FIELD \<Rightarrow>
          (case c of
             None \<Rightarrow> Inr ((parse_save_field r)\<lparr>rd_state := START_RECORD\<rparr>)
           | Some ch \<Rightarrow>
               if ch = dquote then then_state (parse_add_char r ch) IN_QUOTED_FIELD
               else if ch = CHR '','' then Inr ((parse_save_field r)\<lparr>rd_state := START_FIELD\<rparr>)
               else if ch = nl \<or> ch = cr then Inr ((parse_save_field r)\<lparr>rd_state := EAT_CRNL\<rparr>)
               else then_state (parse_add_char r ch) IN_FIELD)
      | EAT_CRNL \<Rightarrow>
          (case c of
             None \<Rightarrow> Inr (r\<lparr>rd_state := START_RECORD\<rparr>)
           | Some ch \<Rightarrow>
               if ch = nl \<or> ch = cr then Inr r
               else Inl (CsvError New_line_character_seen_in_unquoted_field)))"

text \<open>One line of input: its characters, then the end-of-line marker.\<close>

fun process_line :: "reader \<Rightarrow> string \<Rightarrow> py_exn + reader" where
  "process_line r [] = parse_process_char r None"
| "process_line r (c # cs) =
     (case parse_process_char r (Some c) of
        Inl e \<Rightarrow> Inl e
      | Inr r' \<Rightarrow> process_line r' cs)"

text \<open>
  The reader's \<open>__next__\<close>, started from \<open>parse_reset\<close>: it takes lines until the state is
  \<open>START_RECORD\<close> again and returns the fields; when the lines run out inside a record the
  open field is saved and the record returned; when they run out before a record,
  iteration stops (\<open>None\<close>). The second component is the lines not yet read.
\<close>

fun reader_next :: "reader \<Rightarrow> string list \<Rightarrow> py_exn + (string list option \<times> string list)" where
  "reader_next r [] =
     (if rd_field_len r \<noteq> 0 \<or> rd_state r = IN_QUOTED_FIELD
      then Inr (Some (rd_fields (parse_save_field r)), [])
      else Inr (None, []))"
| "reader_next r (l # ls) =
     (case process_line r l of
        Inl e \<Rightarrow> Inl e
      | Inr r' \<Rightarrow>
          if rd_state r' \<noteq> START_RECORD then reader_next r' ls
          else Inr (Some (rd_fields r'), ls))"

text \<open>Iterating over a \<open>StringIO\<close>: the lines of the text, each with its newline.\<close>

fun readlines :: "string \<Rightarrow> string list" where
  "readlines [] = []"
| "readlines (c # cs) =
     (if c = nl then [c] # readlines cs
      else (case readlines cs of [] \<Rightarrow> [[c]] | l # ls \<Rightarrow> (c # l) # ls))"

subsection \<open>Converting rows\<close>

text \<open>
  \<open>int(s)\<close> on a string: blanks around the literal are dropped, a sign may lead, and the
  digits may be separated by single underscores; more than 4300 digits are refused
  (CPython's default limit). \<open>None\<close> stands for \<open>ValueError\<close>.
\<close>

fun int_digits_ok :: "string \<Rightarrow> bool" where
  "int_digits_ok [] = False"
| "int_digits_ok [c] = isdecimal c"
| "int_digits_ok (c # d # cs) =
     (isdecimal c \<and> (if d = CHR ''_'' then int_digits_ok cs else int_digits_ok (d # cs)))"

definition digit_value :: "char \<Rightarrow> int" where
  "digit_value c = int (of_char c) - 48"

definition digits_value :: "string \<Rightarrow> int" where
  "digits_value ds = foldl (\<lambda>a c. 10 * a + digit_value c) 0 ds"

definition py_int :: "string \<Rightarrow> int option" where
  "py_int s =
     (let t = strip s;
          neg = (t \<noteq> [] \<and> hd t = CHR ''-'');
          body = (if t \<noteq> [] \<and> (hd t = CHR ''-'' \<or> hd t = CHR ''+'') then tl t else t);
          ds = filter (\<lambda>c. c \<noteq> CHR ''_'') body
      in if int_digits_ok body \<and> length ds \<le> 4300
         then Some (if neg then - digits_value ds else digits_value ds)
         else None)"

definition py_index :: "'a list \<Rightarrow> nat \<Rightarrow> py_exn + 'a" where
  "py_index xs i = (if i < length xs then Inr (xs ! i) else Inl IndexError)"

definition int_field :: "string list \<Rightarrow> nat \<Rightarrow> py_exn + pyval" where
  "int_field row i =
     (case py_index row i of
        Inl e \<Rightarrow> Inl e
      | Inr f \<Rightarrow> (case py_int (strip f) of None \<Rightarrow> Inl ValueError | Some n \<Rightarrow> Inr (PInt n)))"

definition str_field :: "string list \<Rightarrow> nat \<Rightarrow> py_exn + pyval" where
  "str_field row i =
     (case py_index row i of
        Inl e \<Rightarrow> Inl e
      | Inr f \<Rightarrow> Inr (PStr (strip_chars (\<lambda>c. c = dquote) (strip f))))"

text \<open>The dictionary literal of the loop body; its entries are evaluated in order.\<close>

fun build_dict :: "(string \<times> (py_exn + pyval)) list \<Rightarrow> py_exn + pydict" where
  "build_dict [] = Inr []"
| "build_dict ((k, Inl e) # kvs) = Inl e"
| "build_dict ((k, Inr v) # kvs) =
     (case build_dict kvs of Inl e \<Rightarrow> Inl e | Inr d \<Rightarrow> Inr ((k, v) # d))"

definition question_of_row :: "string list \<Rightarrow> py_exn + pydict" where
  "question_of_row row =
     build_dict
       [(''id'', int_field row 0),
        (''title'', str_field row 1),
        (''question_text'', str_field row 2),
        (''difficulty'', str_field row 3),
        (''max_points'', int_field row 4),
        (''scoring_criteria'', str_field row 5)]"

text \<open>
  The loop \<open>for row in reader\<close>, with the questions appended and the warnings shown so
  far. An exception of the reader leaves the loop and the function.
\<close>

function for_row_in_reader ::
  "string list \<Rightarrow> pydict list \<Rightarrow> py_exn list \<Rightarrow> py_exn + (pydict list \<times> py_exn list)" where
  "for_row_in_reader lines questions warnings =
     (case reader_next parse_reset lines of
        Inl e \<Rightarrow> Inl e
      | Inr (None, _) \<Rightarrow> Inr (questions, warnings)
      | Inr (Some row, rest) \<Rightarrow>
          if length row \<ge> 6 then
            (case question_of_row row of
               Inr q \<Rightarrow> for_row_in_reader rest (questions @ [q]) warnings
             | Inl e \<Rightarrow> for_row_in_reader rest questions (warnings @ [e]))
          else for_row_in_reader rest questions warnings)"
  by pat_completeness auto
termination
proof (relation "measure (\<lambda>(lines :: string list, _, _). length lines)")
  have le: "reader_next r xs = Inr (x, rest) \<Longrightarrow> length rest \<le> length xs" for r xs x rest
  proof (induction xs arbitrary: r)
    case Nil
    then show ?case by (simp split: if_splits)
  next
    case (Cons l xs)
    show ?case
    proof (cases "process_line r l")
      case (Inl e)
      with Cons.prems show ?thesis by simp
    next
      case (Inr r')
      show ?thesis
      proof (cases "rd_state r' = START_RECORD")
        case True
        with Inr Cons.prems show ?thesis by simp
      next
        case False
        with Inr Cons.prems have "reader_next r' xs = Inr (x, rest)" by simp
        from Cons.IH [OF this] show ?thesis by simp
      qed
    qed
  qed
  have lt: "reader_next parse_reset lines = Inr (Some row, rest) \<Longrightarrow> length rest < length lines"
    for lines row rest
  proof (cases lines)
    case Nil
    assume "reader_next parse_reset lines = Inr (Some row, rest)"
    with Nil show ?thesis by (simp add: parse_reset_def)
  next
    case (Cons l ls)
    assume a: "reader_next parse_reset lines = Inr (Some row, rest)"
    show ?thesis
    proof (cases "process_line parse_reset l")
      case (Inl e)
      with a Cons show ?thesis by simp
    next
      case (Inr r')
      show ?thesis
      proof (cases "rd_state r' = START_RECORD")
        case True
        with a Cons Inr show ?thesis by simp
      next
        case False
        with a Cons Inr have "reader_next r' ls = Inr (Some row, rest)" by simp
        from le [OF this] Cons show ?thesis by simp
      qed
    qed
  qed
  {
    fix lines :: "string list" and questions :: "pydict list" and warnings :: "py_exn list"
      and b x y row
    assume "reader_next parse_reset lines = Inr b" "(x, y) = b" "x = Some row"
    then have "reader_next parse_reset lines = Inr (Some row, y)" by auto
    then have "length y < length lines" by (rule lt)
  }
  note step = this
  show "\<And>lines questions warnings b x y row q.
       reader_next parse_reset lines = Inr b \<Longrightarrow> (x, y) = b \<Longrightarrow> x = Some row \<Longrightarrow>
       6 \<le> length row \<Longrightarrow> question_of_row row = Inr q \<Longrightarrow>
       ((y, questions @ [q], warnings), lines, questions, warnings)
         \<in> measure (\<lambda>(lines, _, _). length lines)"
    using step by simp
  show "\<And>lines questions warnings b x y row e.
       reader_next parse_reset lines = Inr b \<Longrightarrow> (x, y) = b \<Longrightarrow> x = Some row \<Longrightarrow>
       6 \<le> length row \<Longrightarrow> question_of_row row = Inl e \<Longrightarrow>
       ((y, questions, warnings @ [e]), lines, questions, warnings)
         \<in> measure (\<lambda>(lines, _, _). length lines)"
    using step by simp
  show "\<And>lines questions warnings b x y row.
       reader_next parse_reset lines = Inr b \<Longrightarrow> (x, y) = b \<Longrightarrow> x = Some row \<Longrightarrow>
       \<not> 6 \<le> length row \<Longrightarrow>
       ((y, questions, warnings), lines, questions, warnings)
         \<in> measure (\<lambda>(lines, _, _). length lines)"
    using step by simp
qed simp

definition parse_questions_from_csv :: "string \<Rightarrow> py_exn + (pydict list \<times> py_exn list)" where
  "parse_questions_from_csv raw_text =
     (let clean_text = strip (remove_fences raw_text);
          data_lines = data_lines_of clean_text
      in if data_lines = [] then Inr ([], [])
         else for_row_in_reader (readlines (join_nl data_lines)) [] [])"


section \<open>The results loop\<close>

text \<open>
  \<open>total_score = 0; for idx, q in enumerate(questions): total_score += display_question(q, idx)\<close>.
  Adding \<open>None\<close> or a string to the integer total raises \<open>TypeError\<close>.
\<close>

fun display_questions ::
  "pydict list \<Rightarrow> int \<Rightarrow> int \<Rightarrow> card list \<Rightarrow> py_exn + (card list \<times> int)" where
  "display_questions [] idx total_score cards = Inr (cards, total_score)"
| "display_questions (q # qs) idx total_score cards =
     (case display_question q idx of
        (c, PInt n) \<Rightarrow> display_questions qs (idx + 1) (total_score + n) (cards @ [c])
      | (c, _) \<Rightarrow> Inl TypeError)"


section \<open>The generation pipeline\<close>

text \<open>
  The model service, \<open>json.loads\<close> and the PDF library are outside the program and are
  parameters. Everything the program does to them or shows on the page is recorded, in
  order, in a trace; an answer of the model may depend on the trace so far, so that the
  same prompt can be answered differently the next time.
    \<^item> \<open>configure key\<close>: \<open>genai.configure\<close> and \<open>genai.GenerativeModel(MODEL_NAME)\<close>
      succeed for this credential;
    \<^item> \<open>generate trace key prompt\<close>: the text of the model's response, \<open>None\<close> when the
      call raises;
    \<^item> \<open>loads_context text\<close>: \<open>json.loads\<close> on the phase-1 response, typed as the function
      is annotated (\<open>Optional[dict]\<close>); the outer \<open>None\<close> is \<open>JSONDecodeError\<close>;
    \<^item> \<open>loads_questions text\<close>: \<open>json.loads\<close> on the phase-2 response, an object, given
      by its member \<open>questions\<close> (a list of dictionaries) when it has one;
    \<^item> \<open>pdf_reader content\<close>: what \<open>extract_text()\<close> returns for each page, \<open>None\<close> when
      opening the document or reading a page raises.
  A prompt is given by the values placed in its fixed text.
\<close>

type_synonym bytes = "nat list"

datatype prompt = Context_prompt string | Question_prompt pyval pyval

datatype message =
    Error_reading_pdf | Failed_to_initialize | Failed_to_parse | Context_analysis_failed
  | Question_generation_failed | No_questions_generated | Raw_output string
  | Phase1_running | Phase1_complete | Phase1_failed
  | Phase2_running | Phase2_complete nat | Phase2_failed
  | Could_not_extract | Provide_api_key | Welcome_text

datatype event =
    Extract bytes
  | Configure string
  | Generate string prompt
  | Show message

record services =
  configure :: "string \<Rightarrow> bool"
  generate :: "event list \<Rightarrow> string \<Rightarrow> prompt \<Rightarrow> string option"
  loads_context :: "string \<Rightarrow> pydict option option"
  loads_questions :: "string \<Rightarrow> pydict list option option"
  pdf_reader :: "bytes \<Rightarrow> string option list option"

definition extract_pdf_text :: "services \<Rightarrow> event list \<Rightarrow> bytes \<Rightarrow> string \<times> event list" where
  "extract_pdf_text env tr file_content =
     (case pdf_reader env file_content of
        None \<Rightarrow> ([], tr @ [Show Error_reading_pdf])
      | Some pages \<Rightarrow>
          (strip (concat (map (\<lambda>p. case p of None \<Rightarrow> [] | Some t \<Rightarrow> t) pages)), tr))"

definition run_context_analysis ::
  "services \<Rightarrow> event list \<Rightarrow> string \<Rightarrow> string \<Rightarrow> pydict option \<times> event list" where
  "run_context_analysis env tr model resume_text =
     (let prompt = Context_prompt resume_text;
          tr1 = tr @ [Generate model prompt]
      in case generate env tr model prompt of
           None \<Rightarrow> (None, tr1 @ [Show Context_analysis_failed])
         | Some text \<Rightarrow>
             (case loads_context env text of
                None \<Rightarrow> (None, tr1 @ [Show Failed_to_parse])
              | Some context_data \<Rightarrow> (context_data, tr1)))"

definition run_question_generation ::
  "services \<Rightarrow> event list \<Rightarrow> string \<Rightarrow> pydict \<Rightarrow> pydict list \<times> event list" where
  "run_question_generation env tr model context_data =
     (let prompt = Question_prompt (dict_get context_data ''campaign_context'' (PStr []))
                                   (dict_get context_data ''job_description'' (PStr []));
          tr1 = tr @ [Generate model prompt]
      in case generate env tr model prompt of
           None \<Rightarrow> ([], tr1 @ [Show Question_generation_failed])
         | Some text \<Rightarrow>
             (case loads_questions env text of
                None \<Rightarrow> ([], tr1 @ [Show Failed_to_parse, Show (Raw_output text)])
              | Some data \<Rightarrow>
                  (let questions = (case data of None \<Rightarrow> [] | Some qs \<Rightarrow> qs)
                   in if questions = []
                      then (questions, tr1 @ [Show No_questions_generated, Show (Raw_output text)])
                      else (questions, tr1))))"

text \<open>
  The coordinator tests \<open>if context_data:\<close>; \<open>None\<close> and the empty dictionary are false.
\<close>

definition run_agentic_chain ::
  "services \<Rightarrow> event list \<Rightarrow> string \<Rightarrow> string
     \<Rightarrow> (pydict option \<times> pydict list) \<times> event list" where
  "run_agentic_chain env tr resume_text api_key =
     (let tr0 = tr @ [Configure api_key]
      in if \<not> configure env api_key then ((None, []), tr0 @ [Show Failed_to_initialize])
         else
           (case run_context_analysis env (tr0 @ [Show Phase1_running]) api_key resume_text of
              (None, tr1) \<Rightarrow> ((None, []), tr1 @ [Show Phase1_failed])
            | (Some context_data, tr1) \<Rightarrow>
                if context_data \<noteq> [] then
                  (case run_question_generation env
                          (tr1 @ [Show Phase1_complete, Show Phase2_running]) api_key
                          context_data of
                     (questions, tr2) \<Rightarrow>
                       ((Some context_data, questions),
                        tr2 @ [Show (if questions \<noteq> [] then Phase2_complete (length questions)
                                     else Phase2_failed)]))
                else ((None, []), tr1 @ [Show Phase1_failed])))"


section \<open>The upload flow and the session cache\<close>

text \<open>
  One run of the page script. \<open>st.session_state\<close> maps keys to cached results; the inputs
  of a run are the uploaded file (name and content), the credential, and whether the
  regenerate button reports a click. \<open>st.stop()\<close> and \<open>st.rerun()\<close> end the run.
\<close>

record cached =
  cached_context :: "pydict option"
  cached_questions :: "pydict list"

type_synonym session_state = "string \<rightharpoonup> cached"

record inputs =
  uploaded_file :: "(string \<times> bytes) option"
  api_key :: string
  regenerate_clicked :: bool

record results_view =
  view_job_description :: pyval
  view_campaign_context :: pyval
  view_question_count :: nat
  view_cards :: "card list"
  view_total_score :: int

datatype outcome =
    Welcome
  | Key_missing
  | Stopped
  | Nothing_shown
  | Rerun
  | Results results_view
  | Raised py_exn

definition file_key_of :: "string \<Rightarrow> string" where
  "file_key_of name = ''results_'' @ name"

definition show_results ::
  "session_state \<Rightarrow> event list \<Rightarrow> string \<Rightarrow> bool \<Rightarrow> session_state \<times> event list \<times> outcome" where
  "show_results ss tr file_key clicked =
     (let ctx_opt = (case ss file_key of None \<Rightarrow> None | Some c \<Rightarrow> cached_context c);
          questions = (case ss file_key of None \<Rightarrow> [] | Some c \<Rightarrow> cached_questions c)
      in case ctx_opt of
           None \<Rightarrow> (ss, tr, Nothing_shown)
         | Some ctx \<Rightarrow>
             if ctx \<noteq> [] \<and> questions \<noteq> [] then
               if clicked then (ss(file_key := None), tr, Rerun)
               else
                 (case display_questions questions 0 0 [] of
                    Inl e \<Rightarrow> (ss, tr, Raised e)
                  | Inr (cards, total_score) \<Rightarrow>
                      (ss, tr,
                       Results \<lparr>view_job_description =
                                  dict_get ctx ''job_description''
                                    (PStr ''No description available''),
                                view_campaign_context =
                                  dict_get ctx ''campaign_context''
                                    (PStr ''No context available''),
                                view_question_count = length questions,
                                view_cards = cards,
                                view_total_score = total_score\<rparr>))
             else (ss, tr, Nothing_shown))"

definition run_script ::
  "services \<Rightarrow> session_state \<Rightarrow> event list \<Rightarrow> inputs \<Rightarrow> session_state \<times> event list \<times> outcome"
  where
  "run_script env ss tr inp =
     (case uploaded_file inp of
        None \<Rightarrow> (ss, tr @ [Show Welcome_text], Welcome)
      | Some (name, content) \<Rightarrow>
          if api_key inp \<noteq> [] then
            (let file_key = file_key_of name
             in if ss file_key = None then
                  (case extract_pdf_text env (tr @ [Extract content]) content of
                     (resume_text, tr1) \<Rightarrow>
                       if resume_text \<noteq> [] then
                         (case run_agentic_chain env tr1 resume_text (api_key inp) of
                            ((ctx_opt, questions), tr2) \<Rightarrow>
                              show_results
                                (ss(file_key \<mapsto>
                                   \<lparr>cached_context = ctx_opt, cached_questions = questions\<rparr>))
                                tr2 file_key (regenerate_clicked inp))
                       else (ss, tr1 @ [Show Could_not_extract], Stopped))
                else show_results ss tr file_key (regenerate_clicked inp))
          else (ss, tr @ [Show Provide_api_key], Key_missing))"


text \<open>The calls of a kind recorded in a trace.\<close>

definition extractions :: "event list \<Rightarrow> nat" where
  "extractions tr = length (filter (\<lambda>e. case e of Extract _ \<Rightarrow> True | _ \<Rightarrow> False) tr)"

definition pipeline_runs :: "event list \<Rightarrow> nat" where
  "pipeline_runs tr = length (filter (\<lambda>e. case e of Configure _ \<Rightarrow> True | _ \<Rightarrow> False) tr)"

definition model_calls :: "event list \<Rightarrow> prompt list" where
  "model_calls tr = concat (map (\<lambda>e. case e of Generate _ p \<Rightarrow> [p] | _ \<Rightarrow> []) tr)"


section \<open>Example inputs\<close>

text \<open>
  A small environment on which the theorems below are instantiated: one credential is
  accepted, the model answers both prompts, and one four-byte document can be read.
\<close>

definition example_context :: pydict where
  "example_context = [(''campaign_context'', PStr ''To simulate this job''), (''job_description'', PStr ''Backend engineer'')]"

definition example_questions :: "pydict list" where
  "example_questions = [[(''id'', PInt 1), (''max_points'', PInt 60)], [(''id'', PInt 2), (''max_points'', PInt 70)]]"

definition example_services :: services where
  "example_services =
     \<lparr>configure = (\<lambda>key. key = ''good-key''),
      generate = (\<lambda>tr key p. case p of Context_prompt _ \<Rightarrow> Some ''context-json'' | Question_prompt _ _ \<Rightarrow> Some ''questions-json''),
      loads_context = (\<lambda>text. if text = ''context-json'' then Some (Some example_context) else None),
      loads_questions = (\<lambda>text. if text = ''questions-json'' then Some (Some example_questions) else None),
      pdf_reader = (\<lambda>content. if content = [37, 80, 68, 70] then Some [Some '' Jane Doe '', None] else None)\<rparr>"

definition example_inputs :: inputs where
  "example_inputs = \<lparr>uploaded_file = Some (''cv.pdf'', [37, 80, 68, 70]), api_key = ''good-key'', regenerate_clicked = False\<rparr>"


definition example_session :: session_state where
  "example_session =
     [file_key_of ''cv.pdf'' \<mapsto> \<lparr>cached_context = Some example_context, cached_questions = example_questions\<rparr>]"

definition ten_questions :: "pydict list" where
  "ten_questions = map (\<lambda>n. [(''max_points'', PInt n)]) [5, 8, 12, 10, 7, 9, 6, 15, 14, 14]"


section \<open>Properties of the colour lookup\<close>

lemma lower_literals:
  "lower ''Easy'' = ''easy''" "lower ''EASY'' = ''easy''" "lower ''hard'' = ''hard''"
  "lower ''Medium'' = ''medium''" "lower ''Unknown'' = ''unknown''"
  by code_simp+

text \<open>
  C9. \<open>get_difficulty_color\<close> lower-cases its argument and maps \<open>hard\<close> to red,
  \<open>medium\<close> to orange, \<open>easy\<close> to green and every other string to gray; \<open>Easy\<close>,
  \<open>EASY\<close>, \<open>hard\<close>, \<open>Medium\<close> and \<open>Unknown\<close> give green, green, red, orange and gray.
\<close>

theorem get_difficulty_color_table:
  "get_difficulty_color d =
     (if lower d = ''hard'' then ''red''
      else if lower d = ''medium'' then ''orange''
      else if lower d = ''easy'' then ''green''
      else ''gray'')
   \<and> get_difficulty_color ''Easy'' = ''green''
   \<and> get_difficulty_color ''EASY'' = ''green''
   \<and> get_difficulty_color ''hard'' = ''red''
   \<and> get_difficulty_color ''Medium'' = ''orange''
   \<and> get_difficulty_color ''Unknown'' = ''gray''"
  by (simp add: get_difficulty_color_def DIFFICULTY_COLORS_def lower_literals)

theorem get_difficulty_color_table_witness:
  "get_difficulty_color ''HaRd'' = ''red'' \<and> get_difficulty_color ''harder'' = ''gray''"
proof -
  have l: "lower ''HaRd'' = ''hard''" "lower ''harder'' = ''harder''"
    by code_simp+
  from get_difficulty_color_table [of "''HaRd''"] get_difficulty_color_table [of "''harder''"]
  show ?thesis
    by (simp add: l)
qed


section \<open>Properties of the question card\<close>

lemma strip_literals:
  "strip ''Unknown'' = ''Unknown''" "strip ''Medium'' = ''Medium''" "strip '' EASY  '' = ''EASY''"
  by (simp_all add: strip_def strip_chars_def isspace_def)

lemma lower_more: "lower ''Unknown'' = ''unknown''" "lower ''Medium'' = ''medium''"
  by code_simp+

lemma dict_get_eq: "dict_get q k d = (case map_of q k of None \<Rightarrow> d | Some v \<Rightarrow> v)"
  by (simp add: dict_get_def)

text \<open>
  C1. The badge colour of a question card. \<open>display_question\<close> does not look the colour
  up with \<open>get_difficulty_color\<close>: it tests for \<open>easy\<close> and \<open>hard\<close> and gives every
  other difficulty, recognised or not, the colour orange. For the difficulty \<open>Unknown\<close>
  the card's badge is orange, where the lookup of the colour table gives gray; no card
  ever has a gray badge.
\<close>

theorem display_question_unrecognized_is_orange:
  "card_color (fst (display_question [(''difficulty'', PStr ''Unknown'')] 0)) = ''orange''
   \<and> get_difficulty_color ''Unknown'' = ''gray''
   \<and> card_color (fst (display_question q i)) \<noteq> ''gray''"
  by (simp add: display_question_def dict_get_def Let_def strip_literals lower_more
      get_difficulty_color_def DIFFICULTY_COLORS_def)

text \<open>
  C8. Missing fields of a question degrade to defaults on its card: \<open>max_points\<close> to 10,
  \<open>title\<close> to \<open>Topic\<close>, \<open>question_text\<close> to \<open>...\<close>, \<open>difficulty\<close> to \<open>Medium\<close>,
  \<open>scoring_criteria\<close> to \<open>No criteria provided\<close> and \<open>id\<close> to \<open>index + 1\<close>; a field that is
  present is shown as it is (the difficulty trimmed). The value returned is the points
  value shown: the record's \<open>max_points\<close> if present, else 10.
\<close>

theorem display_question_defaults:
  "card_points (fst (display_question q index)) = (case map_of q ''max_points'' of None \<Rightarrow> PInt 10 | Some v \<Rightarrow> v)
   \<and> card_title (fst (display_question q index)) = (case map_of q ''title'' of None \<Rightarrow> PStr ''Topic'' | Some v \<Rightarrow> v)
   \<and> card_text (fst (display_question q index)) = (case map_of q ''question_text'' of None \<Rightarrow> PStr ''...'' | Some v \<Rightarrow> v)
   \<and> card_diff (fst (display_question q index)) = (case map_of q ''difficulty'' of None \<Rightarrow> ''Medium'' | Some v \<Rightarrow> strip (py_str v))
   \<and> card_criteria (fst (display_question q index)) = (case map_of q ''scoring_criteria'' of None \<Rightarrow> PStr ''No criteria provided'' | Some v \<Rightarrow> v)
   \<and> card_id (fst (display_question q index)) = (case map_of q ''id'' of None \<Rightarrow> PInt (index + 1) | Some v \<Rightarrow> v)
   \<and> snd (display_question q index) = (case map_of q ''max_points'' of None \<Rightarrow> PInt 10 | Some v \<Rightarrow> v)
   \<and> display_question [(''id'', PInt 7), (''question_text'', PStr ''Explain REST vs RPC''), (''max_points'', PInt 5)] 0
       = (\<lparr>card_id = PInt 7, card_color = ''orange'', card_diff = ''Medium'', card_points = PInt 5,
            card_title = PStr ''Topic'', card_text = PStr ''Explain REST vs RPC'',
            card_criteria = PStr ''No criteria provided''\<rparr>, PInt 5)
   \<and> display_question [] 3
       = (\<lparr>card_id = PInt 4, card_color = ''orange'', card_diff = ''Medium'', card_points = PInt 10,
            card_title = PStr ''Topic'', card_text = PStr ''...'',
            card_criteria = PStr ''No criteria provided''\<rparr>, PInt 10)"
  by (simp add: display_question_def dict_get_def Let_def strip_literals lower_more split: option.split)

theorem display_question_defaults_witness:
  "card_title (fst (display_question [(''max_points'', PInt 5)] 2)) = PStr ''Topic''
   \<and> card_diff (fst (display_question [(''max_points'', PInt 5)] 2)) = ''Medium''
   \<and> card_criteria (fst (display_question [(''max_points'', PInt 5)] 2)) = PStr ''No criteria provided''
   \<and> card_id (fst (display_question [(''max_points'', PInt 5)] 2)) = PInt 3
   \<and> snd (display_question [(''max_points'', PInt 5)] 2) = PInt 5"
  using display_question_defaults [of "[(''max_points'', PInt 5)]" 2]
  by simp


section \<open>Properties of the results loop\<close>

lemma display_questions_acc:
  "(\<And>q i. q \<in> set qs \<Longrightarrow> snd (display_question q i) = PInt (pts q)) \<Longrightarrow>
   \<exists>cards. display_questions qs idx t cs = Inr (cs @ cards, t + sum_list (map pts qs)) \<and> length cards = length qs"
proof (induction qs arbitrary: idx t cs)
  case Nil
  then show ?case by simp
next
  case (Cons q qs)
  obtain c where c: "display_question q idx = (c, PInt (pts q))"
    using Cons.prems [of q idx] by (cases "display_question q idx") simp
  have "\<And>q' i. q' \<in> set qs \<Longrightarrow> snd (display_question q' i) = PInt (pts q')"
    using Cons.prems by simp
  from Cons.IH [OF this, of "idx + 1" "t + pts q" "cs @ [c]"]
  obtain cards where "display_questions qs (idx + 1) (t + pts q) (cs @ [c])
      = Inr ((cs @ [c]) @ cards, t + pts q + sum_list (map pts qs))" "length cards = length qs"
    by blast
  with c have "display_questions (q # qs) idx t cs = Inr (cs @ (c # cards), t + sum_list (map pts (q # qs)))
     \<and> length (c # cards) = length (q # qs)"
    by (simp add: add.assoc)
  then show ?case by blast
qed

lemma display_questions_type_error:
  "snd (display_question q idx) = PNone \<or> snd (display_question q idx) = PStr s \<Longrightarrow>
   display_questions (q # qs) idx t cs = Inl TypeError"
  by (cases "display_question q idx") auto

text \<open>
  C7. The total shown under the cards is the sum of the values that \<open>display_question\<close>
  returned for them, each being the record's \<open>max_points\<close>, or 10 when the record has
  none; nothing brings the total back to 100. The points 5, 8, 12, 10, 7, 9, 6, 15, 14,
  14 give 100, and the same list with the first record lacking \<open>max_points\<close> gives 105.
\<close>

theorem total_score_is_sum_of_returned_points:
  assumes "\<And>q i. q \<in> set qs \<Longrightarrow> snd (display_question q i) = PInt (pts q)"
  shows "(\<exists>cards. display_questions qs 0 0 [] = Inr (cards, sum_list (map pts qs))
            \<and> length cards = length qs)
    \<and> (ss k = Some \<lparr>cached_context = Some ctx, cached_questions = qs\<rparr> \<longrightarrow> ctx \<noteq> [] \<longrightarrow>
        qs \<noteq> [] \<longrightarrow>
          (\<exists>v. show_results ss tr k False = (ss, tr, Results v)
             \<and> view_total_score v = sum_list (map pts qs)))
    \<and> snd (display_question q' i') = dict_get q' ''max_points'' (PInt 10)
    \<and> (\<exists>cards. display_questions ten_questions 0 0 [] = Inr (cards, 100))
    \<and> (\<exists>cards. display_questions ([(''title'', PStr ''T'')] # tl ten_questions) 0 0 []
          = Inr (cards, 105))"
proof -
  from display_questions_acc [of qs pts 0 0 "[]"] assms
  obtain cards where c: "display_questions qs 0 0 [] = Inr (cards, sum_list (map pts qs))"
    "length cards = length qs"
    by auto
  have "\<exists>v. show_results ss tr k False = (ss, tr, Results v)
             \<and> view_total_score v = sum_list (map pts qs)"
    if "ss k = Some \<lparr>cached_context = Some ctx, cached_questions = qs\<rparr>" "ctx \<noteq> []" "qs \<noteq> []"
    using that c by (simp add: show_results_def Let_def)
  moreover have "snd (display_question q' i') = dict_get q' ''max_points'' (PInt 10)"
    by (simp add: display_question_def Let_def)
  moreover have "\<exists>cards. display_questions ten_questions 0 0 [] = Inr (cards, 100)"
    by (simp add: ten_questions_def display_question_def dict_get_def Let_def)
  moreover have "\<exists>cards. display_questions ([(''title'', PStr ''T'')] # tl ten_questions) 0 0 []
          = Inr (cards, 105)"
    by (simp add: ten_questions_def display_question_def dict_get_def Let_def)
  ultimately show ?thesis
    using c by blast
qed

theorem total_score_is_sum_of_returned_points_witness:
  "(\<exists>cards. display_questions example_questions 0 0 [] = Inr (cards, 130))
   \<and> (\<exists>v. show_results example_session [] (file_key_of ''cv.pdf'') False
            = (example_session, [], Results v) \<and> view_total_score v = 130)"
proof -
  let ?pts = "\<lambda>q. case dict_get q ''max_points'' (PInt 10) of PInt n \<Rightarrow> n | _ \<Rightarrow> 0"
  have h: "snd (display_question q i) = PInt (?pts q)" if "q \<in> set example_questions" for q i
    using that by (auto simp: example_questions_def display_question_def dict_get_def Let_def)
  have s: "sum_list (map ?pts example_questions) = 130"
    by (simp add: example_questions_def dict_get_def)
  have e: "example_session (file_key_of ''cv.pdf'')
      = Some \<lparr>cached_context = Some example_context, cached_questions = example_questions\<rparr>"
    "example_context \<noteq> []" "example_questions \<noteq> []"
    by (simp_all add: example_session_def example_context_def example_questions_def)
  from total_score_is_sum_of_returned_points
    [of example_questions ?pts example_session "file_key_of ''cv.pdf''" example_context "[]", OF h] e
  show ?thesis
    unfolding s by blast
qed


section \<open>Properties of the pipeline\<close>

lemma count_simps:
  "extractions (xs @ ys) = extractions xs + extractions ys"
  "pipeline_runs (xs @ ys) = pipeline_runs xs + pipeline_runs ys"
  "model_calls (xs @ ys) = model_calls xs @ model_calls ys"
  "extractions [] = 0" "pipeline_runs [] = 0" "model_calls [] = []"
  "extractions (e # xs) = (case e of Extract _ \<Rightarrow> 1 | _ \<Rightarrow> 0) + extractions xs"
  "pipeline_runs (e # xs) = (case e of Configure _ \<Rightarrow> 1 | _ \<Rightarrow> 0) + pipeline_runs xs"
  "model_calls (e # xs) = (case e of Generate _ p \<Rightarrow> [p] | _ \<Rightarrow> []) @ model_calls xs"
  by (simp_all add: extractions_def pipeline_runs_def model_calls_def split: event.split)

lemma extract_pdf_text_trace:
  "extractions (snd (extract_pdf_text env tr c)) = extractions tr"
  "pipeline_runs (snd (extract_pdf_text env tr c)) = pipeline_runs tr"
  "model_calls (snd (extract_pdf_text env tr c)) = model_calls tr"
  by (simp_all add: extract_pdf_text_def count_simps split: option.split)












lemma run_script_extraction_failed:
  "uploaded_file inp = Some (name, content) \<Longrightarrow> api_key inp \<noteq> [] \<Longrightarrow> ss (file_key_of name) = None \<Longrightarrow>
   extract_pdf_text env (tr @ [Extract content]) content = ([], tr1) \<Longrightarrow>
   run_script env ss tr inp = (ss, tr1 @ [Show Could_not_extract], Stopped)"
  by (simp add: run_script_def Let_def)





section \<open>Properties of the upload flow\<close>

text \<open>
  C5. \<open>extract_pdf_text\<close> returns a string for every content: when opening or reading
  the document raises, the exception is caught, an error is shown and the result is the
  empty string. When the extraction of an upload whose key is not cached gives the empty
  string, the run stops: the session state is unchanged (no entry for the key), the
  client is not configured and the model is not called.
\<close>

theorem extraction_failure_halts:
  "(pdf_reader env content = None \<longrightarrow>
      extract_pdf_text env tr content = ([], tr @ [Show Error_reading_pdf]))
   \<and> (uploaded_file inp = Some (name, content) \<longrightarrow> api_key inp \<noteq> [] \<longrightarrow>
        ss (file_key_of name) = None \<longrightarrow>
        fst (extract_pdf_text env (tr @ [Extract content]) content) = [] \<longrightarrow>
          (\<exists>tr'. run_script env ss tr inp = (ss, tr', Stopped)
             \<and> model_calls tr' = model_calls tr \<and> pipeline_runs tr' = pipeline_runs tr))"
proof (intro conjI impI)
  assume "pdf_reader env content = None"
  then show "extract_pdf_text env tr content = ([], tr @ [Show Error_reading_pdf])"
    by (simp add: extract_pdf_text_def)
next
  assume a: "uploaded_file inp = Some (name, content)" "api_key inp \<noteq> []"
    "ss (file_key_of name) = None"
    "fst (extract_pdf_text env (tr @ [Extract content]) content) = []"
  obtain tr1 where e: "extract_pdf_text env (tr @ [Extract content]) content = ([], tr1)"
    using a(4) by (cases "extract_pdf_text env (tr @ [Extract content]) content") simp
  have r: "run_script env ss tr inp = (ss, tr1 @ [Show Could_not_extract], Stopped)"
    using a(1-3) e by (rule run_script_extraction_failed)
  have "model_calls tr1 = model_calls tr" "pipeline_runs tr1 = pipeline_runs tr"
    using extract_pdf_text_trace(2,3) [of env "tr @ [Extract content]" content] e
    by (simp_all add: count_simps)
  then have "model_calls (tr1 @ [Show Could_not_extract]) = model_calls tr"
    "pipeline_runs (tr1 @ [Show Could_not_extract]) = pipeline_runs tr"
    by (simp_all add: count_simps)
  with r show "\<exists>tr'. run_script env ss tr inp = (ss, tr', Stopped)
             \<and> model_calls tr' = model_calls tr \<and> pipeline_runs tr' = pipeline_runs tr"
    by blast
qed

theorem extraction_failure_halts_witness:
  "extract_pdf_text example_services [] [0] = ([], [Show Error_reading_pdf])
   \<and> (\<exists>tr'. run_script example_services Map.empty []
              (example_inputs\<lparr>uploaded_file := Some (''broken.pdf'', [0])\<rparr>) = (Map.empty, tr', Stopped)
          \<and> model_calls tr' = [] \<and> pipeline_runs tr' = 0)"
proof -
  let ?inp = "example_inputs\<lparr>uploaded_file := Some (''broken.pdf'', [0])\<rparr>"
  have h1: "pdf_reader example_services [0] = None"
    by (simp add: example_services_def)
  have h2: "uploaded_file ?inp = Some (''broken.pdf'', [0])" "api_key ?inp \<noteq> []"
    "(Map.empty :: session_state) (file_key_of ''broken.pdf'') = None"
    by (simp_all add: example_inputs_def)
  have h3: "fst (extract_pdf_text example_services ([] @ [Extract [0]]) [0]) = []"
    by (simp add: extract_pdf_text_def h1)
  from extraction_failure_halts [of example_services "[0]" "[]" ?inp "''broken.pdf''" Map.empty]
    h1 h2 h3
  show ?thesis
    by (simp add: count_simps)
qed





end
